theory Spec2Isabelle
  imports Complex_Main "HOL-Library.AList" "HOL-Library.Char_ord" "HOL-Library.List_Lexorder"
begin

section \<open>Time values\<close>

text \<open>
  The handlers build and read JavaScript \<^verbatim>\<open>Date\<close> objects. A Date holds a time value: the
  milliseconds since 1970-01-01T00:00:00Z, an integer here. The functions below are the
  abstract operations of ECMAScript (section "Date Objects") that the two constructor
  calls of \<^verbatim>\<open>getMonthlyReport\<close> and the calls \<^verbatim>\<open>getFullYear\<close> and \<^verbatim>\<open>getMonth\<close> of
  \<^verbatim>\<open>getCategoryReport\<close> run, under their names there.

  Local time is UTC plus an offset \<open>tza\<close> in milliseconds, the host's time zone, which
  every function that reads or builds local time takes as its first argument. The offset
  is one constant: a zone without daylight saving (UTC, or IST for an INR ledger).
\<close>

definition msPerDay :: int where
  "msPerDay = 86400000"

definition Day :: "int \<Rightarrow> int" where
  "Day t = t div msPerDay"

definition DaysInYear :: "int \<Rightarrow> int" where
  "DaysInYear y =
     (if y mod 4 \<noteq> 0 then 365
      else if y mod 100 \<noteq> 0 then 366
      else if y mod 400 \<noteq> 0 then 365
      else 366)"

definition DayFromYear :: "int \<Rightarrow> int" where
  "DayFromYear y =
     365 * (y - 1970) + (y - 1969) div 4 - (y - 1901) div 100 + (y - 1601) div 400"

text \<open>
  \<open>YearFromTime t\<close> is the largest year \<open>y\<close> with \<open>DayFromYear y \<le> Day t\<close>. It is found
  by counting up from a year that is not after it; the search needs to know that the
  years' first days increase.
\<close>

lemma div_succ:
  fixes a n :: int
  assumes "0 < n"
  shows "(a + 1) div n = a div n + (if (a + 1) mod n = 0 then 1 else 0)"
proof -
  have decomp: "a + 1 = n * (a div n) + (a mod n + 1)"
    by simp
  have lo: "0 \<le> a mod n" and hi: "a mod n < n"
    using assms by simp_all
  show ?thesis
  proof (cases "a mod n + 1 = n")
    case True
    then have eq: "a + 1 = n * (a div n + 1) + 0"
      using decomp by (simp add: algebra_simps)
    have "(a + 1) div n = a div n + 1"
      using int_div_pos_eq [OF eq] assms by simp
    moreover have "(a + 1) mod n = 0"
      using int_mod_pos_eq [OF eq] assms by simp
    ultimately show ?thesis by simp
  next
    case False
    then have r: "a mod n + 1 < n" using hi by simp
    have "(a + 1) div n = a div n"
      using int_div_pos_eq [OF decomp] lo r by simp
    moreover have "(a + 1) mod n = a mod n + 1"
      using int_mod_pos_eq [OF decomp] lo r by simp
    ultimately show ?thesis using lo by simp
  qed
qed

lemma mod_shift4: "((y::int) - 1968) mod 4 = y mod 4"
  by algebra

lemma mod_shift100: "((y::int) - 1900) mod 100 = y mod 100"
  by algebra

lemma mod_shift400: "((y::int) - 1600) mod 400 = y mod 400"
  by algebra

lemma mod_400_100: "(y::int) mod 400 = 0 \<Longrightarrow> y mod 100 = 0"
proof -
  assume "y mod 400 = 0"
  then have "400 dvd y" by (simp add: mod_eq_0_iff_dvd)
  moreover have "(100::int) dvd 400" by simp
  ultimately have "100 dvd y" using dvd_trans by blast
  then show ?thesis by (simp add: mod_eq_0_iff_dvd)
qed

lemma mod_100_4: "(y::int) mod 100 = 0 \<Longrightarrow> y mod 4 = 0"
proof -
  assume "y mod 100 = 0"
  then have "100 dvd y" by (simp add: mod_eq_0_iff_dvd)
  moreover have "(4::int) dvd 100" by simp
  ultimately have "4 dvd y" using dvd_trans by blast
  then show ?thesis by (simp add: mod_eq_0_iff_dvd)
qed

lemma DayFromYear_Suc: "DayFromYear (y + 1) = DayFromYear y + DaysInYear y"
proof -
  have a: "(y + 1 - 1969) div 4 = (y - 1969) div 4 + (if y mod 4 = 0 then 1 else 0)"
    using div_succ [of 4 "y - 1969"] mod_shift4 [of y] by (simp add: algebra_simps)
  have b: "(y + 1 - 1901) div 100 = (y - 1901) div 100 + (if y mod 100 = 0 then 1 else 0)"
    using div_succ [of 100 "y - 1901"] mod_shift100 [of y] by (simp add: algebra_simps)
  have c: "(y + 1 - 1601) div 400 = (y - 1601) div 400 + (if y mod 400 = 0 then 1 else 0)"
    using div_succ [of 400 "y - 1601"] mod_shift400 [of y] by (simp add: algebra_simps)
  show ?thesis
    unfolding DayFromYear_def DaysInYear_def a b c
    using mod_400_100 [of y] mod_100_4 [of y] by auto
qed

lemma DaysInYear_bounds: "365 \<le> DaysInYear y \<and> DaysInYear y \<le> 366"
  by (simp add: DaysInYear_def)

lemma DayFromYear_step: "DayFromYear y < DayFromYear (y + 1)"
  using DaysInYear_bounds [of y] by (simp add: DayFromYear_Suc)

function yearSearch :: "int \<Rightarrow> int \<Rightarrow> int" where
  "yearSearch d y = (if DayFromYear (y + 1) \<le> d then yearSearch d (y + 1) else y)"
  by pat_completeness auto
termination
proof (relation "measure (\<lambda>(d, y). nat (d - DayFromYear y))")
  show "wf (measure (\<lambda>(d, y). nat (d - DayFromYear y)))" by simp
next
  fix d y :: int
  assume "DayFromYear (y + 1) \<le> d"
  with DayFromYear_step [of y]
  show "((d, y + 1), (d, y)) \<in> measure (\<lambda>(d, y). nat (d - DayFromYear y))"
    by simp
qed

declare yearSearch.simps [simp del]

definition YearFromDay :: "int \<Rightarrow> int" where
  "YearFromDay d = yearSearch d (if 0 \<le> d then 1970 + d div 366 else 1970 + d div 365)"

definition YearFromTime :: "int \<Rightarrow> int" where
  "YearFromTime t = YearFromDay (Day t)"

definition InLeapYear :: "int \<Rightarrow> int" where
  "InLeapYear t = (if DaysInYear (YearFromTime t) = 366 then 1 else 0)"

definition DayWithinYear :: "int \<Rightarrow> int" where
  "DayWithinYear t = Day t - DayFromYear (YearFromTime t)"

definition MonthFromTime :: "int \<Rightarrow> int" where
  "MonthFromTime t =
     (let d = DayWithinYear t; l = InLeapYear t in
      if d < 31 then 0
      else if d < 59 + l then 1
      else if d < 90 + l then 2
      else if d < 120 + l then 3
      else if d < 151 + l then 4
      else if d < 181 + l then 5
      else if d < 212 + l then 6
      else if d < 243 + l then 7
      else if d < 273 + l then 8
      else if d < 304 + l then 9
      else if d < 334 + l then 10
      else 11)"

definition MakeTime :: "int \<Rightarrow> int \<Rightarrow> int \<Rightarrow> int \<Rightarrow> int" where
  "MakeTime hour minute sec ms = hour * 3600000 + minute * 60000 + sec * 1000 + ms"

text \<open>
  \<open>MakeDay\<close> carries a month outside 0..11 into the year, finds the day number of the first
  of that month (\<open>FirstDayOfMonth\<close>: the table \<open>MonthFromTime\<close> reads, as day offsets in
  a year that has \<open>l\<close> leap days) and adds the date, which may be 0 or negative.
\<close>

definition FirstDayOfMonth :: "int \<Rightarrow> int \<Rightarrow> int" where
  "FirstDayOfMonth l mn =
     (if mn = 0 then 0
      else if mn = 1 then 31
      else if mn = 2 then 59 + l
      else if mn = 3 then 90 + l
      else if mn = 4 then 120 + l
      else if mn = 5 then 151 + l
      else if mn = 6 then 181 + l
      else if mn = 7 then 212 + l
      else if mn = 8 then 243 + l
      else if mn = 9 then 273 + l
      else if mn = 10 then 304 + l
      else 334 + l)"

definition MakeDay :: "int \<Rightarrow> int \<Rightarrow> int \<Rightarrow> int" where
  "MakeDay year month date =
     (let ym = year + month div 12;
          mn = month mod 12;
          l = (if DaysInYear ym = 366 then 1 else 0)
      in DayFromYear ym + FirstDayOfMonth l mn + date - 1)"

definition MakeDate :: "int \<Rightarrow> int \<Rightarrow> int" where
  "MakeDate day time = day * msPerDay + time"

definition MakeFullYear :: "int \<Rightarrow> int" where
  "MakeFullYear year = (if 0 \<le> year \<and> year \<le> 99 then 1900 + year else year)"

text \<open>A time value beyond 8.64e15 ms is no time value: the Date is an Invalid Date (\<open>None\<close>).\<close>

definition TimeClip :: "int \<Rightarrow> int option" where
  "TimeClip time = (if 8640000000000000 < \<bar>time\<bar> then None else Some time)"

definition LocalTime :: "int \<Rightarrow> int \<Rightarrow> int" where
  "LocalTime tza t = t + tza"

definition UTC :: "int \<Rightarrow> int \<Rightarrow> int" where
  "UTC tza t = t - tza"

text \<open>\<^verbatim>\<open>new Date(year, month, date, hours, minutes, seconds, ms)\<close>, on integers.\<close>

definition newDate :: "int \<Rightarrow> int \<Rightarrow> int \<Rightarrow> int \<Rightarrow> int \<Rightarrow> int \<Rightarrow> int \<Rightarrow> int \<Rightarrow> int option" where
  "newDate tza year month date hours minutes seconds ms =
     TimeClip (UTC tza (MakeDate (MakeDay (MakeFullYear year) month date)
                                 (MakeTime hours minutes seconds ms)))"

definition getFullYear :: "int \<Rightarrow> int \<Rightarrow> int" where
  "getFullYear tza t = YearFromTime (LocalTime tza t)"

definition getMonth :: "int \<Rightarrow> int \<Rightarrow> int" where
  "getMonth tza t = MonthFromTime (LocalTime tza t)"

section \<open>The tables\<close>

text \<open>
  The three enums of the schema, and the columns of the tables \<^verbatim>\<open>transactions\<close>,
  \<^verbatim>\<open>categories\<close> and \<^verbatim>\<open>pools\<close> that the reports read. An amount is a
  \<^verbatim>\<open>numeric(15, 2)\<close>, an exact decimal: a rational here, and so are the sums of amounts
  (the rounding of the handlers' \<^verbatim>\<open>parseFloat\<close> to a double is not part of this model).
  A timestamp is a time value. The tables share column names, so a field carries the
  prefix of its table; the columns that no report reads (the description, the vendor, the
  associated person, the times of creation and update) are left out. A table is the list
  of its rows, and a failure of the store is not part of this model.
\<close>

datatype transaction_type = Income | Expense | Credit | Payment

datatype pool_type = PoolIncome | PoolExpense | PoolCredit | PoolPayment

datatype category_type = CatIncome | CatExpense | CatCredit

record transaction =
  tx_id :: int
  tx_user_id :: int
  tx_pool_id :: "int option"
  tx_type :: transaction_type
  tx_amount :: rat
  tx_category_id :: "int option"
  tx_transaction_date :: int

record category =
  cat_id :: int
  cat_user_id :: int
  cat_name :: string
  cat_type :: category_type

record pool =
  pool_id :: int
  pool_user_id :: int
  pool_name :: string
  pool_type :: pool_type

record database =
  transactionsTable :: "transaction list"
  categoriesTable :: "category list"
  poolsTable :: "pool list"

text \<open>
  \<^verbatim>\<open>GROUP BY\<close>: one group per key among the rows, with the rows that have it. The
  database promises no order of the groups; here they come in the order of the last row
  of each key. \<^verbatim>\<open>INNER JOIN ... ON\<close>: the pairs of a row of each table that satisfy the
  condition.
\<close>

definition groupBy :: "('r \<Rightarrow> 'k) \<Rightarrow> 'r list \<Rightarrow> ('k \<times> 'r list) list" where
  "groupBy key rows = map (\<lambda>k. (k, filter (\<lambda>r. key r = k) rows)) (remdups (map key rows))"

definition innerJoin :: "'a list \<Rightarrow> 'b list \<Rightarrow> ('a \<Rightarrow> 'b \<Rightarrow> bool) \<Rightarrow> ('a \<times> 'b) list" where
  "innerJoin as bs on = concat (map (\<lambda>a. map (\<lambda>b. (a, b)) (filter (on a) bs)) as)"

text \<open>
  The tables declare \<^verbatim>\<open>id\<close> as the primary key and \<^verbatim>\<open>category_id\<close> as a reference to
  \<^verbatim>\<open>categories.id\<close>: the ids of a table differ, and a category id on a transaction is the
  id of a category. The first is \<open>distinct (map cat_id (categoriesTable db))\<close>; the second:
\<close>

definition foreignKeys :: "database \<Rightarrow> bool" where
  "foreignKeys db \<longleftrightarrow>
     list_all (\<lambda>t. case tx_category_id t of
                     None \<Rightarrow> True
                   | Some cid \<Rightarrow> cid \<in> set (map cat_id (categoriesTable db)))
       (transactionsTable db)"

section \<open>The monthly report\<close>

record GetMonthlyReportQuery =
  mq_user_id :: int
  mq_year :: int
  mq_month :: int

record categoryBreakdownRow =
  cb_categoryId :: int
  cb_categoryName :: string
  cb_type :: category_type
  cb_totalAmount :: rat
  cb_transactionCount :: nat

record poolBreakdownRow =
  pb_poolId :: int
  pb_poolName :: string
  pb_type :: pool_type
  pb_totalAmount :: rat
  pb_transactionCount :: nat

record MonthlyReportData =
  totalIncome :: rat
  totalExpenses :: rat
  totalCredit :: rat
  totalPayments :: rat
  netAmount :: rat
  transactionCount :: nat
  categoryBreakdown :: "categoryBreakdownRow list"
  poolBreakdown :: "poolBreakdownRow list"

text \<open>
  An Invalid Date cannot be bound as a parameter of a query: serialising it raises
  \<^verbatim>\<open>RangeError: Invalid time value\<close>, which the handler logs and throws again.
\<close>

datatype error = InvalidTimeValue

definition baseConditions :: "GetMonthlyReportQuery \<Rightarrow> int \<Rightarrow> int \<Rightarrow> transaction \<Rightarrow> bool" where
  "baseConditions query startDate endDate t \<longleftrightarrow>
     tx_user_id t = mq_user_id query \<and>
     startDate \<le> tx_transaction_date t \<and>
     tx_transaction_date t \<le> endDate"

definition totalsQuery :: "database \<Rightarrow> (transaction \<Rightarrow> bool) \<Rightarrow> (transaction_type \<times> rat \<times> nat) list" where
  "totalsQuery db conds =
     map (\<lambda>(ty, g). (ty, sum_list (map tx_amount g), length g))
       (groupBy tx_type (filter conds (transactionsTable db)))"

record totals =
  acc_totalIncome :: rat
  acc_totalExpenses :: rat
  acc_totalCredit :: rat
  acc_totalPayments :: rat
  acc_transactionCount :: nat

text \<open>The body of \<^verbatim>\<open>totalsResults.forEach\<close>.\<close>

definition processTotal :: "totals \<Rightarrow> transaction_type \<times> rat \<times> nat \<Rightarrow> totals" where
  "processTotal acc result =
     (case result of (ty, amount, count) \<Rightarrow>
        (let acc' = acc\<lparr>acc_transactionCount := acc_transactionCount acc + count\<rparr> in
         case ty of
           Income \<Rightarrow> acc'\<lparr>acc_totalIncome := amount\<rparr>
         | Expense \<Rightarrow> acc'\<lparr>acc_totalExpenses := amount\<rparr>
         | Credit \<Rightarrow> acc'\<lparr>acc_totalCredit := amount\<rparr>
         | Payment \<Rightarrow> acc'\<lparr>acc_totalPayments := amount\<rparr>))"

definition categoryQuery :: "database \<Rightarrow> (transaction \<Rightarrow> bool) \<Rightarrow> categoryBreakdownRow list" where
  "categoryQuery db conds =
     map (\<lambda>((cid, name, ty), g).
           \<lparr>cb_categoryId = cid, cb_categoryName = name, cb_type = ty,
            cb_totalAmount = sum_list (map (tx_amount \<circ> fst) g),
            cb_transactionCount = length g\<rparr>)
       (groupBy (\<lambda>(t, c). (cat_id c, cat_name c, cat_type c))
          (filter (\<lambda>(t, c). conds t)
             (innerJoin (transactionsTable db) (categoriesTable db)
                (\<lambda>t c. tx_category_id t = Some (cat_id c)))))"

definition poolQuery :: "database \<Rightarrow> (transaction \<Rightarrow> bool) \<Rightarrow> poolBreakdownRow list" where
  "poolQuery db conds =
     map (\<lambda>((pid, name, ty), g).
           \<lparr>pb_poolId = pid, pb_poolName = name, pb_type = ty,
            pb_totalAmount = sum_list (map (tx_amount \<circ> fst) g),
            pb_transactionCount = length g\<rparr>)
       (groupBy (\<lambda>(t, p). (pool_id p, pool_name p, pool_type p))
          (filter (\<lambda>(t, p). conds t)
             (innerJoin (transactionsTable db) (poolsTable db)
                (\<lambda>t p. tx_pool_id t = Some (pool_id p)))))"

text \<open>
  \<^verbatim>\<open>getMonthlyReportQuerySchema\<close>: the three fields of the input must be numbers, and no
  range is asked of them. (The numbers of this model are the integers.)
\<close>

datatype jsonValue = JNumber int | JString string | JBoolean bool | JNull




text \<open>The date range of the month: \<^verbatim>\<open>startDate\<close> and \<^verbatim>\<open>endDate\<close>, when both are dates.\<close>

definition monthRange :: "int \<Rightarrow> int \<Rightarrow> int \<Rightarrow> (int \<times> int) option" where
  "monthRange tza year month =
     (case newDate tza year (month - 1) 1 0 0 0 0 of
        None \<Rightarrow> None
      | Some startDate \<Rightarrow>
         (case newDate tza year month 0 23 59 59 999 of
            None \<Rightarrow> None
          | Some endDate \<Rightarrow> Some (startDate, endDate)))"

text \<open>The three queries under the conditions \<open>conds\<close>, and the report built from them.\<close>

definition monthlyReport :: "database \<Rightarrow> (transaction \<Rightarrow> bool) \<Rightarrow> MonthlyReportData" where
  "monthlyReport db conds =
     (let acc = foldl processTotal
                  \<lparr>acc_totalIncome = 0, acc_totalExpenses = 0, acc_totalCredit = 0,
                   acc_totalPayments = 0, acc_transactionCount = 0\<rparr>
                  (totalsQuery db conds);
          net = acc_totalIncome acc + acc_totalPayments acc
                  - acc_totalExpenses acc - acc_totalCredit acc
      in \<lparr>totalIncome = acc_totalIncome acc,
          totalExpenses = acc_totalExpenses acc,
          totalCredit = acc_totalCredit acc,
          totalPayments = acc_totalPayments acc,
          netAmount = net,
          transactionCount = acc_transactionCount acc,
          categoryBreakdown = categoryQuery db conds,
          poolBreakdown = poolQuery db conds\<rparr>)"

definition getMonthlyReport :: "int \<Rightarrow> database \<Rightarrow> GetMonthlyReportQuery \<Rightarrow> error + MonthlyReportData" where
  "getMonthlyReport tza db query =
     (case monthRange tza (mq_year query) (mq_month query) of
        None \<Rightarrow> Inl InvalidTimeValue
      | Some (startDate, endDate) \<Rightarrow>
          Inr (monthlyReport db (baseConditions query startDate endDate)))"

section \<open>The category report\<close>

record GetCategoryReportQuery =
  cq_user_id :: int
  cq_start_date :: "int option"
  cq_end_date :: "int option"

record monthlyData =
  md_year :: int
  md_month :: int
  md_totalAmount :: rat
  md_transactionCount :: nat

record categoryEntry =
  ce_categoryId :: int
  ce_categoryName :: string
  ce_type :: category_type
  ce_totalAmount :: rat
  ce_transactionCount :: nat
  ce_averageAmount :: rat
  ce_monthlyBreakdown :: "monthlyData list"

record typeTotals =
  income :: rat
  expense :: rat
  credit :: rat

record CategoryReportData =
  categories :: "categoryEntry list"
  totalsByType :: typeTotals

text \<open>The conditions of the query; a date filter is there when the query gives the date.\<close>

definition conditions :: "GetCategoryReportQuery \<Rightarrow> transaction \<Rightarrow> bool" where
  "conditions query t \<longleftrightarrow>
     tx_user_id t = cq_user_id query \<and>
     tx_type t \<in> set [Income, Expense, Credit] \<and>
     tx_category_id t \<noteq> None \<and>
     (case cq_start_date query of
        None \<Rightarrow> True
      | Some start_date \<Rightarrow> start_date \<le> tx_transaction_date t) \<and>
     (case cq_end_date query of
        None \<Rightarrow> True
      | Some end_date \<Rightarrow> tx_transaction_date t \<le> end_date)"

text \<open>
  The rows of the join under the conditions, by category name descending (names compare
  character by character; rows of one name keep no promised order in the database, and
  nothing below depends on the order of the rows).
\<close>

definition finalQuery :: "database \<Rightarrow> GetCategoryReportQuery \<Rightarrow> (transaction \<times> category) list" where
  "finalQuery db query =
     rev (sort_key (\<lambda>(t, c). cat_name c)
       (filter (\<lambda>(t, c). conditions query t)
          (innerJoin (transactionsTable db) (categoriesTable db)
             (\<lambda>t c. tx_category_id t = Some (cat_id c)))))"

text \<open>
  A JavaScript \<^verbatim>\<open>Map\<close> is a list of keys with their values in insertion order:
  \<open>map_of\<close> is \<^verbatim>\<open>get\<close>, and \<open>AList.update\<close> is \<^verbatim>\<open>set\<close> (a key that is there
  keeps its place, a new one goes last). A value that is an object is changed in place.
\<close>

record categoryTransaction =
  ct_amount :: rat
  ct_transactionDate :: int

record categoryData =
  cd_categoryId :: int
  cd_categoryName :: string
  cd_type :: category_type
  cd_transactions :: "categoryTransaction list"

text \<open>The body of \<^verbatim>\<open>results.forEach\<close>.\<close>

definition addResult :: "(int \<times> categoryData) list \<Rightarrow> transaction \<times> category \<Rightarrow> (int \<times> categoryData) list" where
  "addResult categoryMap result =
     (case result of (transaction, category) \<Rightarrow>
        (let m = (if map_of categoryMap (cat_id category) = None
                  then AList.update (cat_id category)
                         \<lparr>cd_categoryId = cat_id category, cd_categoryName = cat_name category,
                          cd_type = cat_type category, cd_transactions = []\<rparr> categoryMap
                  else categoryMap)
         in case map_of m (cat_id category) of
              None \<Rightarrow> m
            | Some cd \<Rightarrow>
                AList.update (cat_id category)
                  (cd\<lparr>cd_transactions := cd_transactions cd @
                        [\<lparr>ct_amount = tx_amount transaction,
                          ct_transactionDate = tx_transaction_date transaction\<rparr>]\<rparr>) m))"

text \<open>A number in a template literal: the decimal digits of an integer, with its sign.\<close>

fun digits :: "nat \<Rightarrow> string" where
  "digits n = (if n < 10 then [char_of (48 + n)] else digits (n div 10) @ [char_of (48 + n mod 10)])"

declare digits.simps [simp del]

definition numberToString :: "int \<Rightarrow> string" where
  "numberToString n = (if n < 0 then CHR ''-'' # digits (nat (- n)) else digits (nat n))"

definition monthKey :: "int \<Rightarrow> int \<Rightarrow> string" where
  "monthKey year month = numberToString year @ ''-'' @ numberToString month"

text \<open>The body of \<^verbatim>\<open>categoryData.transactions.forEach\<close>.\<close>

definition addMonthly :: "int \<Rightarrow> (string \<times> monthlyData) list \<Rightarrow> categoryTransaction \<Rightarrow> (string \<times> monthlyData) list" where
  "addMonthly tza monthlyMap transaction =
     (let date = ct_transactionDate transaction;
          year = getFullYear tza date;
          month = getMonth tza date + 1;
          key = monthKey year month;
          m = (if map_of monthlyMap key = None
               then AList.update key
                      \<lparr>md_year = year, md_month = month, md_totalAmount = 0,
                       md_transactionCount = 0\<rparr> monthlyMap
               else monthlyMap)
      in case map_of m key of
           None \<Rightarrow> m
         | Some monthlyData \<Rightarrow>
             AList.update key
               (monthlyData\<lparr>md_totalAmount := md_totalAmount monthlyData + ct_amount transaction,
                            md_transactionCount := md_transactionCount monthlyData + 1\<rparr>) m)"

text \<open>
  \<^verbatim>\<open>Array.prototype.sort\<close> with a comparison function: the sort is stable, and places \<open>a\<close>
  before \<open>b\<close> when \<open>compare a b\<close> is negative.
\<close>

fun insertBy :: "('a \<Rightarrow> 'a \<Rightarrow> int) \<Rightarrow> 'a \<Rightarrow> 'a list \<Rightarrow> 'a list" where
  "insertBy compare x [] = [x]"
| "insertBy compare x (y # ys) =
     (if compare x y \<le> 0 then x # y # ys else y # insertBy compare x ys)"

definition sortBy :: "('a \<Rightarrow> 'a \<Rightarrow> int) \<Rightarrow> 'a list \<Rightarrow> 'a list" where
  "sortBy compare xs = foldr (insertBy compare) xs []"

definition compareMonths :: "monthlyData \<Rightarrow> monthlyData \<Rightarrow> int" where
  "compareMonths a b =
     (if md_year a \<noteq> md_year b then md_year a - md_year b else md_month a - md_month b)"

text \<open>The function mapped over the values of \<^verbatim>\<open>categoryMap\<close>.\<close>

definition buildCategory :: "int \<Rightarrow> categoryData \<Rightarrow> categoryEntry" where
  "buildCategory tza categoryData =
     (let totalAmount = foldl (\<lambda>sum t. sum + ct_amount t) 0 (cd_transactions categoryData);
          transactionCount = length (cd_transactions categoryData);
          averageAmount = (if transactionCount > 0
                           then totalAmount / of_nat transactionCount else 0);
          monthlyMap = foldl (addMonthly tza) [] (cd_transactions categoryData);
          monthlyBreakdown = sortBy compareMonths (map snd monthlyMap)
      in \<lparr>ce_categoryId = cd_categoryId categoryData,
          ce_categoryName = cd_categoryName categoryData,
          ce_type = cd_type categoryData,
          ce_totalAmount = totalAmount,
          ce_transactionCount = transactionCount,
          ce_averageAmount = averageAmount,
          ce_monthlyBreakdown = monthlyBreakdown\<rparr>)"

text \<open>The body of \<^verbatim>\<open>categories.forEach\<close>.\<close>

definition addToTotals :: "typeTotals \<Rightarrow> categoryEntry \<Rightarrow> typeTotals" where
  "addToTotals totals category =
     (case ce_type category of
        CatIncome \<Rightarrow> totals\<lparr>income := income totals + ce_totalAmount category\<rparr>
      | CatExpense \<Rightarrow> totals\<lparr>expense := expense totals + ce_totalAmount category\<rparr>
      | CatCredit \<Rightarrow> totals\<lparr>credit := credit totals + ce_totalAmount category\<rparr>)"

text \<open>The report from the rows of the query, and the handler.\<close>

definition categoryReport :: "int \<Rightarrow> (transaction \<times> category) list \<Rightarrow> CategoryReportData" where
  "categoryReport tza results =
     (let categoryMap = foldl addResult [] results;
          cats = map (buildCategory tza) (map snd categoryMap)
      in \<lparr>categories = cats,
          totalsByType = foldl addToTotals \<lparr>income = 0, expense = 0, credit = 0\<rparr> cats\<rparr>)"

definition getCategoryReport :: "int \<Rightarrow> database \<Rightarrow> GetCategoryReportQuery \<Rightarrow> CategoryReportData" where
  "getCategoryReport tza db query = categoryReport tza (finalQuery db query)"

text \<open>
  What the two maps hold while the rows are added. \<open>grouped m rs\<close>: after the rows
  \<open>rs\<close>, the map \<open>m\<close> has one key for each category id among them, and the value of a key
  lists the rows of that category, in their order. \<open>keyed m\<close>: every key of the monthly
  map is the key of the year and month its value holds.
\<close>

definition entry :: "transaction \<times> category \<Rightarrow> categoryTransaction" where
  "entry result =
     \<lparr>ct_amount = tx_amount (fst result), ct_transactionDate = tx_transaction_date (fst result)\<rparr>"

definition grouped :: "(int \<times> categoryData) list \<Rightarrow> (transaction \<times> category) list \<Rightarrow> bool" where
  "grouped m rs \<longleftrightarrow>
     distinct (map fst m) \<and>
     (\<forall>k cd. map_of m k = Some cd \<longrightarrow>
        cd_categoryId cd = k \<and>
        cd_transactions cd = map entry (filter (\<lambda>(t, c). cat_id c = k) rs) \<and>
        filter (\<lambda>(t, c). cat_id c = k) rs \<noteq> []) \<and>
     (\<forall>k. map_of m k = None \<longrightarrow> filter (\<lambda>(t, c). cat_id c = k) rs = [])"

definition keyed :: "(string \<times> monthlyData) list \<Rightarrow> bool" where
  "keyed m \<longleftrightarrow> (\<forall>(k, v) \<in> set m. k = monthKey (md_year v) (md_month v))"

section \<open>A ledger to run the reports on\<close>

text \<open>
  User 1 has a salary of 50000 on 2024-01-15, groceries of 5000 on 2024-01-10, of 2500 on
  2024-01-20, of 4000 on 2024-02-01 and of 3000 on 2023-12-31, a loan of 10000 on
  2024-01-05, and a payment of 1500 on 2024-01-12 that carries the groceries category;
  the salary and the payment are in a pool. User 2 has an income of 80000 on 2024-01-15.
  The dates are midnights in UTC.
\<close>

definition ledger :: database where
  "ledger =
     \<lparr>transactionsTable =
        [\<lparr>tx_id = 1, tx_user_id = 1, tx_pool_id = Some 1, tx_type = Income, tx_amount = 50000,
          tx_category_id = Some 1, tx_transaction_date = 1705276800000\<rparr>,
         \<lparr>tx_id = 2, tx_user_id = 1, tx_pool_id = None, tx_type = Expense, tx_amount = 5000,
          tx_category_id = Some 2, tx_transaction_date = 1704844800000\<rparr>,
         \<lparr>tx_id = 3, tx_user_id = 1, tx_pool_id = None, tx_type = Credit, tx_amount = 10000,
          tx_category_id = Some 3, tx_transaction_date = 1704412800000\<rparr>,
         \<lparr>tx_id = 4, tx_user_id = 1, tx_pool_id = Some 1, tx_type = Payment, tx_amount = 1500,
          tx_category_id = Some 2, tx_transaction_date = 1705017600000\<rparr>,
         \<lparr>tx_id = 5, tx_user_id = 1, tx_pool_id = None, tx_type = Expense, tx_amount = 4000,
          tx_category_id = Some 2, tx_transaction_date = 1706745600000\<rparr>,
         \<lparr>tx_id = 6, tx_user_id = 1, tx_pool_id = None, tx_type = Expense, tx_amount = 3000,
          tx_category_id = Some 2, tx_transaction_date = 1703980800000\<rparr>,
         \<lparr>tx_id = 7, tx_user_id = 1, tx_pool_id = None, tx_type = Expense, tx_amount = 2500,
          tx_category_id = Some 2, tx_transaction_date = 1705708800000\<rparr>,
         \<lparr>tx_id = 8, tx_user_id = 2, tx_pool_id = None, tx_type = Income, tx_amount = 80000,
          tx_category_id = Some 4, tx_transaction_date = 1705276800000\<rparr>],
      categoriesTable =
        [\<lparr>cat_id = 1, cat_user_id = 1, cat_name = ''Salary'', cat_type = CatIncome\<rparr>,
         \<lparr>cat_id = 2, cat_user_id = 1, cat_name = ''Groceries'', cat_type = CatExpense\<rparr>,
         \<lparr>cat_id = 3, cat_user_id = 1, cat_name = ''Loan'', cat_type = CatCredit\<rparr>,
         \<lparr>cat_id = 4, cat_user_id = 2, cat_name = ''Other Income'', cat_type = CatIncome\<rparr>],
      poolsTable =
        [\<lparr>pool_id = 1, pool_user_id = 1, pool_name = ''Household'', pool_type = PoolExpense\<rparr>]\<rparr>"

definition january :: GetMonthlyReportQuery where
  "january = \<lparr>mq_user_id = 1, mq_year = 2024, mq_month = 1\<rparr>"

definition januaryReport :: MonthlyReportData where
  "januaryReport =
     \<lparr>totalIncome = 50000, totalExpenses = 7500, totalCredit = 10000, totalPayments = 1500,
      netAmount = 34000, transactionCount = 5,
      categoryBreakdown =
        [\<lparr>cb_categoryId = 1, cb_categoryName = ''Salary'', cb_type = CatIncome,
          cb_totalAmount = 50000, cb_transactionCount = 1\<rparr>,
         \<lparr>cb_categoryId = 3, cb_categoryName = ''Loan'', cb_type = CatCredit,
          cb_totalAmount = 10000, cb_transactionCount = 1\<rparr>,
         \<lparr>cb_categoryId = 2, cb_categoryName = ''Groceries'', cb_type = CatExpense,
          cb_totalAmount = 9000, cb_transactionCount = 3\<rparr>],
      poolBreakdown =
        [\<lparr>pb_poolId = 1, pb_poolName = ''Household'', pb_type = PoolExpense,
          pb_totalAmount = 51500, pb_transactionCount = 2\<rparr>]\<rparr>"

definition allDates :: GetCategoryReportQuery where
  "allDates = \<lparr>cq_user_id = 1, cq_start_date = None, cq_end_date = None\<rparr>"

definition allDatesReport :: CategoryReportData where
  "allDatesReport =
     \<lparr>categories =
        [\<lparr>ce_categoryId = 1, ce_categoryName = ''Salary'', ce_type = CatIncome,
          ce_totalAmount = 50000, ce_transactionCount = 1, ce_averageAmount = 50000,
          ce_monthlyBreakdown =
            [\<lparr>md_year = 2024, md_month = 1, md_totalAmount = 50000,
              md_transactionCount = 1\<rparr>]\<rparr>,
         \<lparr>ce_categoryId = 3, ce_categoryName = ''Loan'', ce_type = CatCredit,
          ce_totalAmount = 10000, ce_transactionCount = 1, ce_averageAmount = 10000,
          ce_monthlyBreakdown =
            [\<lparr>md_year = 2024, md_month = 1, md_totalAmount = 10000,
              md_transactionCount = 1\<rparr>]\<rparr>,
         \<lparr>ce_categoryId = 2, ce_categoryName = ''Groceries'', ce_type = CatExpense,
          ce_totalAmount = 14500, ce_transactionCount = 4, ce_averageAmount = 3625,
          ce_monthlyBreakdown =
            [\<lparr>md_year = 2023, md_month = 12, md_totalAmount = 3000,
              md_transactionCount = 1\<rparr>,
             \<lparr>md_year = 2024, md_month = 1, md_totalAmount = 7500,
              md_transactionCount = 2\<rparr>,
             \<lparr>md_year = 2024, md_month = 2, md_totalAmount = 4000,
              md_transactionCount = 1\<rparr>]\<rparr>],
      totalsByType = \<lparr>income = 50000, expense = 14500, credit = 10000\<rparr>\<rparr>"

definition utilityBill :: transaction where
  "utilityBill =
     \<lparr>tx_id = 4, tx_user_id = 1, tx_pool_id = Some 1, tx_type = Payment, tx_amount = 1500,
      tx_category_id = Some 2, tx_transaction_date = 1705017600000\<rparr>"

definition groceries :: category where
  "groceries = \<lparr>cat_id = 2, cat_user_id = 1, cat_name = ''Groceries'', cat_type = CatExpense\<rparr>"







definition february :: GetCategoryReportQuery where
  "february = \<lparr>cq_user_id = 1, cq_start_date = Some 1706745600000, cq_end_date = Some 1706745600000\<rparr>"

definition februaryReport :: CategoryReportData where
  "februaryReport =
     \<lparr>categories =
        [\<lparr>ce_categoryId = 2, ce_categoryName = ''Groceries'', ce_type = CatExpense,
          ce_totalAmount = 4000, ce_transactionCount = 1, ce_averageAmount = 4000,
          ce_monthlyBreakdown =
            [\<lparr>md_year = 2024, md_month = 2, md_totalAmount = 4000,
              md_transactionCount = 1\<rparr>]\<rparr>],
      totalsByType = \<lparr>income = 0, expense = 4000, credit = 0\<rparr>\<rparr>"

definition payday :: GetCategoryReportQuery where
  "payday = \<lparr>cq_user_id = 1, cq_start_date = Some 1705276800000, cq_end_date = Some 1705276800000\<rparr>"

definition paydayReport :: CategoryReportData where
  "paydayReport =
     \<lparr>categories =
        [\<lparr>ce_categoryId = 1, ce_categoryName = ''Salary'', ce_type = CatIncome,
          ce_totalAmount = 50000, ce_transactionCount = 1, ce_averageAmount = 50000,
          ce_monthlyBreakdown =
            [\<lparr>md_year = 2024, md_month = 1, md_totalAmount = 50000,
              md_transactionCount = 1\<rparr>]\<rparr>],
      totalsByType = \<lparr>income = 50000, expense = 0, credit = 0\<rparr>\<rparr>"

section \<open>Evaluating the reports on the ledger\<close>

lemma january_report: "getMonthlyReport 0 ledger january = Inr januaryReport"
  by code_simp

lemma all_dates_report: "getCategoryReport 0 ledger allDates = allDatesReport"
  by code_simp

lemma ledger_keys:
  "distinct (map cat_id (categoriesTable ledger))"
  "distinct (map pool_id (poolsTable ledger))"
  by (simp_all add: ledger_def)

lemma january_range:
  "monthRange 0 (mq_year january) (mq_month january) = Some (1704067200000, 1706745599999)"
  by code_simp

lemma utilityBill_facts:
  "utilityBill \<in> set (transactionsTable ledger)"
  "tx_type utilityBill = Payment"
  "baseConditions january 1704067200000 1706745599999 utilityBill"
  "groceries \<in> set (categoriesTable ledger)"
  "tx_category_id utilityBill = Some (cat_id groceries)"
  by (simp_all add: utilityBill_def groceries_def ledger_def baseConditions_def january_def)





lemma february_report: "getCategoryReport 0 ledger february = februaryReport"
  by code_simp

lemma payday_report: "getCategoryReport 0 ledger payday = paydayReport"
  by code_simp

lemma ledger_foreignKeys: "foreignKeys ledger"
  by code_simp

lemma all_dates_transactions:
  "map tx_id (filter (conditions allDates) (transactionsTable ledger)) = [1, 2, 3, 5, 6, 7]"
  by code_simp

section \<open>Facts about the queries\<close>

lemma groupBy_keys: "map fst (groupBy key rows) = remdups (map key rows)"
  by (simp add: groupBy_def comp_def)

lemma delta_sum_list:
  "distinct ks \<Longrightarrow> sum_list (map (\<lambda>k. if a = k then (1::nat) else 0) ks) = (if a \<in> set ks then 1 else 0)"
  by (induction ks) auto

lemma partition_length:
  "distinct ks \<Longrightarrow> set (map key rows) \<subseteq> set ks \<Longrightarrow>
   sum_list (map (\<lambda>k. length (filter (\<lambda>r. key r = k) rows)) ks) = length rows"
proof (induction rows)
  case Nil
  then show ?case by simp
next
  case (Cons r rs)
  have "sum_list (map (\<lambda>k. length (filter (\<lambda>r. key r = k) (r # rs))) ks) =
        sum_list (map (\<lambda>k. (if key r = k then 1 else 0) + length (filter (\<lambda>r. key r = k) rs)) ks)"
    by (rule arg_cong [where f = sum_list], rule map_cong) auto
  also have "\<dots> = sum_list (map (\<lambda>k. if key r = k then (1::nat) else 0) ks) +
                   sum_list (map (\<lambda>k. length (filter (\<lambda>r. key r = k) rs)) ks)"
    by (simp add: sum_list_addf)
  also have "\<dots> = 1 + length rs"
    using Cons by (simp add: delta_sum_list)
  finally show ?case by simp
qed

lemma groupBy_length_sum:
  "sum_list (map (\<lambda>(k, g). length g) (groupBy key rows)) = length rows"
proof -
  have "sum_list (map (\<lambda>(k, g). length g) (groupBy key rows)) =
        sum_list (map (\<lambda>k. length (filter (\<lambda>r. key r = k) rows)) (remdups (map key rows)))"
    by (simp add: groupBy_def comp_def)
  also have "\<dots> = length rows"
    by (rule partition_length) simp_all
  finally show ?thesis .
qed


lemma innerJoin_filter:
  "filter (\<lambda>(a, b). P a) (innerJoin as bs on) = innerJoin (filter P as) bs on"
  by (induction as) (simp_all add: innerJoin_def filter_map comp_def)

lemma length_innerJoin_le:
  assumes "\<And>a. length (filter (on a) bs) \<le> 1"
  shows "length (innerJoin as bs on) \<le> length as"
proof (induction as)
  case Nil
  show ?case by (simp add: innerJoin_def)
next
  case (Cons a as)
  have "length (innerJoin (a # as) bs on) = length (filter (on a) bs) + length (innerJoin as bs on)"
    by (simp add: innerJoin_def)
  with Cons assms [of a] show ?case by simp
qed

lemma unique_match:
  "distinct (map f bs) \<Longrightarrow> length (filter (\<lambda>b. x = Some (f b)) bs) \<le> 1"
proof (induction bs)
  case Nil
  show ?case by simp
next
  case (Cons b bs)
  show ?case
  proof (cases "x = Some (f b)")
    case True
    with Cons.prems have "filter (\<lambda>b. x = Some (f b)) bs = []"
      by (auto simp: filter_empty_conv)
    with True show ?thesis by simp
  next
    case False
    with Cons show ?thesis by simp
  qed
qed

lemma processTotal_count:
  "acc_transactionCount (foldl processTotal acc rs) =
   acc_transactionCount acc + sum_list (map (\<lambda>(ty, amount, count). count) rs)"
  by (induction rs arbitrary: acc)
     (auto simp: processTotal_def Let_def split: transaction_type.splits)

lemma totalsQuery_count:
  "sum_list (map (\<lambda>(ty, amount, count). count) (totalsQuery db conds)) =
   length (filter conds (transactionsTable db))"
proof -
  have "map (\<lambda>(ty, amount, count). count) (totalsQuery db conds) =
        map (\<lambda>(k, g). length g) (groupBy tx_type (filter conds (transactionsTable db)))"
    by (simp add: totalsQuery_def comp_def case_prod_unfold)
  then show ?thesis by (simp add: groupBy_length_sum)
qed

lemma monthlyReport_count:
  "transactionCount (monthlyReport db conds) = length (filter conds (transactionsTable db))"
  by (simp add: monthlyReport_def Let_def processTotal_count totalsQuery_count)

lemma categoryQuery_count:
  "sum_list (map cb_transactionCount (categoryQuery db conds)) =
   length (innerJoin (filter conds (transactionsTable db)) (categoriesTable db)
             (\<lambda>t c. tx_category_id t = Some (cat_id c)))"
proof -
  have "map cb_transactionCount (categoryQuery db conds) =
        map (\<lambda>(k, g). length g)
          (groupBy (\<lambda>(t, c). (cat_id c, cat_name c, cat_type c))
             (filter (\<lambda>(t, c). conds t)
                (innerJoin (transactionsTable db) (categoriesTable db)
                   (\<lambda>t c. tx_category_id t = Some (cat_id c)))))"
    by (simp add: categoryQuery_def comp_def case_prod_unfold)
  then show ?thesis by (simp add: groupBy_length_sum innerJoin_filter)
qed

lemma poolQuery_count:
  "sum_list (map pb_transactionCount (poolQuery db conds)) =
   length (innerJoin (filter conds (transactionsTable db)) (poolsTable db)
             (\<lambda>t p. tx_pool_id t = Some (pool_id p)))"
proof -
  have "map pb_transactionCount (poolQuery db conds) =
        map (\<lambda>(k, g). length g)
          (groupBy (\<lambda>(t, p). (pool_id p, pool_name p, pool_type p))
             (filter (\<lambda>(t, p). conds t)
                (innerJoin (transactionsTable db) (poolsTable db)
                   (\<lambda>t p. tx_pool_id t = Some (pool_id p)))))"
    by (simp add: poolQuery_def comp_def case_prod_unfold)
  then show ?thesis by (simp add: groupBy_length_sum innerJoin_filter)
qed




lemma innerJoin_snd_in: "(a, b) \<in> set (innerJoin as bs on) \<longleftrightarrow> a \<in> set as \<and> b \<in> set bs \<and> on a b"
  by (auto simp: innerJoin_def)

lemma filter_by_key:
  "distinct (map f bs) \<Longrightarrow> b \<in> set bs \<Longrightarrow> filter (\<lambda>b'. f b' = f b) bs = [b]"
proof (induction bs)
  case Nil
  then show ?case by simp
next
  case (Cons x xs)
  show ?case
  proof (cases "x = b")
    case True
    with Cons.prems have "filter (\<lambda>b'. f b' = f b) xs = []"
      by (auto simp: filter_empty_conv intro: rev_image_eqI)
    with True show ?thesis by simp
  next
    case False
    with Cons.prems have "b \<in> set xs" and "f x \<noteq> f b" by auto
    with Cons show ?thesis by simp
  qed
qed

lemma join_group:
  assumes "distinct (map f bs)" and "b \<in> set bs"
  shows "filter (\<lambda>(a', b'). f b' = f b) (innerJoin as bs (\<lambda>a b. g a = Some (f b))) =
         map (\<lambda>a'. (a', b)) (filter (\<lambda>a'. g a' = Some (f b)) as)"
proof (induction as)
  case Nil
  show ?case by (simp add: innerJoin_def)
next
  case (Cons a as)
  have one: "filter (\<lambda>b'. g a = Some (f b') \<and> f b' = f b) bs =
             (if g a = Some (f b) then [b] else [])"
  proof (cases "g a = Some (f b)")
    case True
    then have "filter (\<lambda>b'. g a = Some (f b') \<and> f b' = f b) bs = filter (\<lambda>b'. f b' = f b) bs"
      by (intro filter_cong) auto
    with True filter_by_key [OF assms] show ?thesis by simp
  next
    case False
    then have "filter (\<lambda>b'. g a = Some (f b') \<and> f b' = f b) bs = []"
      by (auto simp: filter_empty_conv)
    with False show ?thesis by simp
  qed
  have "filter (\<lambda>(a', b'). f b' = f b) (innerJoin (a # as) bs (\<lambda>a b. g a = Some (f b))) =
        map (\<lambda>b'. (a, b')) (filter (\<lambda>b'. g a = Some (f b') \<and> f b' = f b) bs) @
        filter (\<lambda>(a', b'). f b' = f b) (innerJoin as bs (\<lambda>a b. g a = Some (f b)))"
    by (simp add: innerJoin_def filter_map comp_def)
  with Cons one show ?case by simp
qed


lemma groupBy_member:
  "r \<in> set rows \<Longrightarrow> (key r, filter (\<lambda>r'. key r' = key r) rows) \<in> set (groupBy key rows)"
  by (auto simp: groupBy_def)

lemma categoryQuery_group:
  assumes keys: "distinct (map cat_id (categoriesTable db))"
    and c: "c \<in> set (categoriesTable db)"
    and t: "t \<in> set (transactionsTable db)" "conds t" "tx_category_id t = Some (cat_id c)"
  shows "\<lparr>cb_categoryId = cat_id c, cb_categoryName = cat_name c, cb_type = cat_type c,
          cb_totalAmount = sum_list (map tx_amount
            (filter (\<lambda>t'. conds t' \<and> tx_category_id t' = Some (cat_id c)) (transactionsTable db))),
          cb_transactionCount = length
            (filter (\<lambda>t'. conds t' \<and> tx_category_id t' = Some (cat_id c)) (transactionsTable db))\<rparr>
         \<in> set (categoryQuery db conds)"
proof -
  let ?on = "\<lambda>t c. tx_category_id t = Some (cat_id c)"
  let ?key = "\<lambda>(t, c). (cat_id c, cat_name c, cat_type c)"
  let ?rows = "innerJoin (filter conds (transactionsTable db)) (categoriesTable db) ?on"
  let ?mine = "filter (\<lambda>t'. tx_category_id t' = Some (cat_id c)) (filter conds (transactionsTable db))"
  have inj: "inj_on cat_id (set (categoriesTable db))"
    using keys by (simp add: distinct_map)
  have in_rows: "(t, c) \<in> set ?rows"
    using c t by (simp add: innerJoin_snd_in)
  have "filter (\<lambda>r'. ?key r' = ?key (t, c)) ?rows = filter (\<lambda>(t', c'). cat_id c' = cat_id c) ?rows"
  proof (rule filter_cong [OF refl])
    fix r' assume mem: "r' \<in> set ?rows"
    obtain t' c' where r': "r' = (t', c')"
      by (cases r')
    from mem have "c' \<in> set (categoriesTable db)"
      by (simp add: r' innerJoin_snd_in)
    with inj c have "cat_id c' = cat_id c \<longleftrightarrow> c' = c"
      by (auto dest: inj_onD)
    then show "(?key r' = ?key (t, c)) = (case r' of (t', c') \<Rightarrow> cat_id c' = cat_id c)"
      by (auto simp: r')
  qed
  also have "\<dots> = map (\<lambda>t'. (t', c)) ?mine"
    by (rule join_group [OF keys c])
  finally have group: "filter (\<lambda>r'. ?key r' = ?key (t, c)) ?rows = map (\<lambda>t'. (t', c)) ?mine" .
  from groupBy_member [OF in_rows, of ?key]
  have "(?key (t, c), map (\<lambda>t'. (t', c)) ?mine) \<in> set (groupBy ?key ?rows)"
    by (simp only: group)
  then show ?thesis
    unfolding categoryQuery_def innerJoin_filter set_map
    by (rule rev_image_eqI) (simp add: comp_def)
qed


lemma conditions_not_payment: "conditions query t \<Longrightarrow> tx_type t \<noteq> Payment"
  by (auto simp: conditions_def)

lemma finalQuery_restrict:
  assumes "\<And>t. t \<in> set (transactionsTable db) \<Longrightarrow> conditions query t \<Longrightarrow> P t"
  shows "finalQuery (db\<lparr>transactionsTable := filter P (transactionsTable db)\<rparr>) query =
         finalQuery db query"
proof -
  have "filter (conditions query) (filter P (transactionsTable db)) =
        filter (conditions query) (transactionsTable db)"
    unfolding filter_filter using assms by (intro filter_cong) auto
  then show ?thesis
    by (simp add: finalQuery_def innerJoin_filter)
qed

subsection \<open>The calendar\<close>






















subsection \<open>The totals of the monthly report\<close>












subsection \<open>Months carried into the year\<close>




subsection \<open>The category report\<close>

lemma addToTotals_fold:
  "income (foldl addToTotals totals cs) =
     income totals + sum_list (map ce_totalAmount (filter (\<lambda>c. ce_type c = CatIncome) cs))"
  "expense (foldl addToTotals totals cs) =
     expense totals + sum_list (map ce_totalAmount (filter (\<lambda>c. ce_type c = CatExpense) cs))"
  "credit (foldl addToTotals totals cs) =
     credit totals + sum_list (map ce_totalAmount (filter (\<lambda>c. ce_type c = CatCredit) cs))"
  by (induction cs arbitrary: totals; simp add: addToTotals_def split: category_type.splits)+

lemma no_category_of_type:
  "\<forall>c \<in> set cs. ce_type c \<noteq> ty \<Longrightarrow> filter (\<lambda>c. ce_type c = ty) cs = []"
  by (simp add: filter_empty_conv)







lemma foldl_amounts:
  "foldl (\<lambda>sum t. sum + ct_amount t) a ts = a + sum_list (map ct_amount ts)"
  by (induction ts arbitrary: a) (simp_all add: add.assoc)


lemma update_member:
  "(k', v') \<in> set (AList.update k v al) \<Longrightarrow> (k', v') = (k, v) \<or> (k', v') \<in> set al"
  by (induction al) (auto split: if_splits)

lemma keyed_update:
  "keyed m \<Longrightarrow> k = monthKey (md_year v) (md_month v) \<Longrightarrow> keyed (AList.update k v m)"
  unfolding keyed_def by (auto dest: update_member)

lemma addMonthly_keyed:
  assumes "keyed m"
  shows "keyed (addMonthly tza m t)"
proof -
  define key where
    "key = monthKey (getFullYear tza (ct_transactionDate t)) (getMonth tza (ct_transactionDate t) + 1)"
  define fresh where
    "fresh = \<lparr>md_year = getFullYear tza (ct_transactionDate t),
              md_month = getMonth tza (ct_transactionDate t) + 1,
              md_totalAmount = 0, md_transactionCount = 0\<rparr>"
  define bump where
    "bump = (\<lambda>md :: monthlyData. md\<lparr>md_totalAmount := md_totalAmount md + ct_amount t,
                       md_transactionCount := md_transactionCount md + 1\<rparr>)"
  have fresh_key: "key = monthKey (md_year fresh) (md_month fresh)"
    by (simp add: key_def fresh_def)
  show ?thesis
  proof (cases "map_of m key")
    case None
    have "keyed (AList.update key (bump fresh) (AList.update key fresh m))"
      using assms fresh_key by (intro keyed_update) (simp_all add: bump_def)
    with None show ?thesis
      by (simp add: addMonthly_def Let_def key_def [symmetric] fresh_def [symmetric]
            update_conv' bump_def)
  next
    case (Some md)
    then have "(key, md) \<in> set m" by (rule map_of_SomeD)
    with assms have "key = monthKey (md_year md) (md_month md)"
      by (auto simp: keyed_def)
    then have "keyed (AList.update key (bump md) m)"
      using assms by (intro keyed_update) (simp_all add: bump_def)
    with Some show ?thesis
      by (simp add: addMonthly_def Let_def key_def [symmetric] bump_def)
  qed
qed

lemma addMonthly_distinct:
  "distinct (map fst m) \<Longrightarrow> distinct (map fst (addMonthly tza m t))"
  by (simp add: addMonthly_def Let_def distinct_update split: option.splits)

lemma addMonthly_fold_inv:
  "distinct (map fst m) \<Longrightarrow> keyed m \<Longrightarrow>
   distinct (map fst (foldl (addMonthly tza) m ts)) \<and> keyed (foldl (addMonthly tza) m ts)"
  by (induction ts arbitrary: m) (simp_all add: addMonthly_keyed addMonthly_distinct)

lemma keyed_months_distinct:
  assumes "distinct (map fst m)" and "keyed m"
  shows "distinct (map (\<lambda>v. (md_year v, md_month v)) (map snd m))"
proof -
  let ?h = "\<lambda>v. (md_year v, md_month v)"
  let ?g = "\<lambda>(y, mo). monthKey y mo"
  from assms(2) have "map fst m = map (?g \<circ> ?h) (map snd m)"
    by (auto simp: keyed_def)
  with assms(1) have "distinct (map (?g \<circ> ?h) (map snd m))" by simp
  then have "distinct (map snd m)" and "inj_on (?g \<circ> ?h) (set (map snd m))"
    by (simp_all only: distinct_map)
  from this(2) have "inj_on ?h (set (map snd m))" by (rule inj_on_imageI2)
  with \<open>distinct (map snd m)\<close> show ?thesis
    by (simp only: distinct_map)
qed

lemma set_insertBy: "set (insertBy compare x ys) = insert x (set ys)"
  by (induction ys) auto

lemma set_sortBy: "set (sortBy compare xs) = set xs"
  by (induction xs) (simp_all add: sortBy_def set_insertBy)

lemma distinct_insertBy:
  "distinct (map h (insertBy compare x ys)) \<longleftrightarrow> h x \<notin> h ` set ys \<and> distinct (map h ys)"
  by (induction ys) (auto simp: set_insertBy)

lemma distinct_sortBy: "distinct (map h (sortBy compare xs)) \<longleftrightarrow> distinct (map h xs)"
  by (induction xs) (simp_all add: sortBy_def distinct_insertBy set_sortBy [unfolded sortBy_def])

lemma sorted_insertBy:
  assumes total: "\<And>a b. compare a b \<le> 0 \<or> compare b a \<le> 0"
    and trans: "\<And>a b c. compare a b \<le> 0 \<Longrightarrow> compare b c \<le> 0 \<Longrightarrow> compare a c \<le> 0"
  shows "sorted_wrt (\<lambda>a b. compare a b \<le> 0) ys \<Longrightarrow>
         sorted_wrt (\<lambda>a b. compare a b \<le> 0) (insertBy compare x ys)"
proof (induction ys)
  case Nil
  show ?case by simp
next
  case (Cons y ys)
  show ?case
  proof (cases "compare x y \<le> 0")
    case True
    with Cons.prems trans show ?thesis by auto
  next
    case False
    with total [of x y] have "compare y x \<le> 0" by simp
    with False Cons show ?thesis by (auto simp: set_insertBy)
  qed
qed

lemma sorted_sortBy:
  assumes "\<And>a b. compare a b \<le> 0 \<or> compare b a \<le> 0"
    and "\<And>a b c. compare a b \<le> 0 \<Longrightarrow> compare b c \<le> 0 \<Longrightarrow> compare a c \<le> 0"
  shows "sorted_wrt (\<lambda>a b. compare a b \<le> 0) (sortBy compare xs)"
  by (induction xs) (simp_all add: sortBy_def sorted_insertBy [OF assms])

lemma compareMonths_le:
  "compareMonths a b \<le> 0 \<longleftrightarrow>
   md_year a < md_year b \<or> (md_year a = md_year b \<and> md_month a \<le> md_month b)"
  by (auto simp: compareMonths_def)

lemma strict_of_distinct:
  "sorted_wrt (\<lambda>a b. compareMonths a b \<le> 0) xs \<Longrightarrow>
   distinct (map (\<lambda>v. (md_year v, md_month v)) xs) \<Longrightarrow>
   sorted_wrt (\<lambda>a b. md_year a < md_year b \<or> (md_year a = md_year b \<and> md_month a < md_month b)) xs"
proof (induction xs)
  case Nil
  show ?case by simp
next
  case (Cons x xs)
  have "md_year x < md_year y \<or> (md_year x = md_year y \<and> md_month x < md_month y)"
    if "y \<in> set xs" for y
  proof -
    from Cons.prems(1) that have "compareMonths x y \<le> 0" by simp
    moreover from Cons.prems(2) that have "(md_year x, md_month x) \<noteq> (md_year y, md_month y)"
      by (auto simp: image_iff)
    ultimately show ?thesis by (auto simp: compareMonths_le)
  qed
  with Cons show ?case by simp
qed

lemma buildCategory_months:
  "sorted_wrt (\<lambda>a b. md_year a < md_year b \<or> (md_year a = md_year b \<and> md_month a < md_month b))
     (ce_monthlyBreakdown (buildCategory tza cd)) \<and>
   distinct (map (\<lambda>v. (md_year v, md_month v)) (ce_monthlyBreakdown (buildCategory tza cd)))"
proof -
  let ?m = "foldl (addMonthly tza) [] (cd_transactions cd)"
  have "distinct (map fst ?m) \<and> keyed ?m"
    by (rule addMonthly_fold_inv) (simp_all add: keyed_def)
  then have d: "distinct (map (\<lambda>v. (md_year v, md_month v)) (sortBy compareMonths (map snd ?m)))"
    by (simp only: distinct_sortBy keyed_months_distinct)
  have "sorted_wrt (\<lambda>a b. compareMonths a b \<le> 0) (sortBy compareMonths (map snd ?m))"
    by (rule sorted_sortBy) (auto simp: compareMonths_le)
  from strict_of_distinct [OF this d] d show ?thesis
    by (simp add: buildCategory_def Let_def)
qed

lemma addResult_map_of:
  "map_of (addResult m (t, c)) =
     (map_of m)(cat_id c \<mapsto>
        (case map_of m (cat_id c) of
           None \<Rightarrow> \<lparr>cd_categoryId = cat_id c, cd_categoryName = cat_name c, cd_type = cat_type c,
                    cd_transactions = [entry (t, c)]\<rparr>
         | Some cd \<Rightarrow> cd\<lparr>cd_transactions := cd_transactions cd @ [entry (t, c)]\<rparr>))"
  by (simp add: addResult_def Let_def update_conv' entry_def split: option.splits)

lemma addResult_distinct:
  "distinct (map fst m) \<Longrightarrow> distinct (map fst (addResult m r))"
  by (cases r) (simp add: addResult_def Let_def distinct_update split: option.splits)

lemma grouped_step:
  assumes "grouped m rs"
  shows "grouped (addResult m (t, c)) (rs @ [(t, c)])"
proof -
  from assms have d: "distinct (map fst m)"
    and some: "\<And>k cd. map_of m k = Some cd \<Longrightarrow>
        cd_categoryId cd = k \<and>
        cd_transactions cd = map entry (filter (\<lambda>(t, c). cat_id c = k) rs) \<and>
        filter (\<lambda>(t, c). cat_id c = k) rs \<noteq> []"
    and none: "\<And>k. map_of m k = None \<Longrightarrow> filter (\<lambda>(t, c). cat_id c = k) rs = []"
    by (simp_all add: grouped_def)
  have "cd_categoryId cd = k \<and>
        cd_transactions cd = map entry (filter (\<lambda>(t, c). cat_id c = k) (rs @ [(t, c)])) \<and>
        filter (\<lambda>(t, c). cat_id c = k) (rs @ [(t, c)]) \<noteq> []"
    if "map_of (addResult m (t, c)) k = Some cd" for k cd
  proof (cases "k = cat_id c")
    case True
    show ?thesis
    proof (cases "map_of m (cat_id c)")
      case None
      with that True none [OF None] show ?thesis
        by (auto simp: addResult_map_of)
    next
      case (Some old)
      with that True some [OF Some] show ?thesis
        by (auto simp: addResult_map_of)
    qed
  next
    case False
    with that have "map_of m k = Some cd"
      by (simp add: addResult_map_of)
    from some [OF this] False show ?thesis by simp
  qed
  moreover have "filter (\<lambda>(t, c). cat_id c = k) (rs @ [(t, c)]) = []"
    if "map_of (addResult m (t, c)) k = None" for k
  proof -
    from that have "k \<noteq> cat_id c" and "map_of m k = None"
      by (auto simp: addResult_map_of split: if_splits)
    with none [of k] show ?thesis by simp
  qed
  ultimately show ?thesis
    using addResult_distinct [OF d] unfolding grouped_def by blast
qed

lemma grouped_fold:
  "grouped m rs \<Longrightarrow> grouped (foldl addResult m rows) (rs @ rows)"
proof (induction rows arbitrary: m rs)
  case Nil
  then show ?case by simp
next
  case (Cons r rows)
  obtain t c where r: "r = (t, c)" by (cases r)
  from Cons.IH [OF grouped_step [OF Cons.prems, of t c]] show ?case
    by (simp add: r)
qed

lemma grouped_categoryMap: "grouped (foldl addResult [] rows) rows"
  using grouped_fold [of "[]" "[]" rows] by (simp add: grouped_def)

lemma grouped_member:
  assumes "grouped m rs" and "(k, cd) \<in> set m"
  shows "cd_categoryId cd = k"
    and "cd_transactions cd = map entry (filter (\<lambda>(t, c). cat_id c = k) rs)"
    and "\<exists>t c. (t, c) \<in> set rs \<and> cat_id c = k"
proof -
  from assms have m: "map_of m k = Some cd"
    by (simp add: grouped_def)
  with assms(1) show "cd_categoryId cd = k"
    and "cd_transactions cd = map entry (filter (\<lambda>(t, c). cat_id c = k) rs)"
    by (simp_all add: grouped_def)
  from m assms(1) have "filter (\<lambda>(t, c). cat_id c = k) rs \<noteq> []"
    by (simp add: grouped_def)
  then show "\<exists>t c. (t, c) \<in> set rs \<and> cat_id c = k"
    by (auto simp: filter_empty_conv)
qed

lemma grouped_keys:
  assumes "grouped m rs"
  shows "map (cd_categoryId \<circ> snd) m = map fst m"
  using grouped_member(1) [OF assms] by (intro map_cong) auto

lemma sum_list_insort_key:
  fixes g :: "'a \<Rightarrow> 'b::comm_monoid_add"
  shows "sum_list (map g (insort_key f x xs)) = g x + sum_list (map g xs)"
  by (induction xs) (simp_all add: add.left_commute)

lemma sum_list_sort_key:
  fixes g :: "'a \<Rightarrow> 'b::comm_monoid_add"
  shows "sum_list (map g (sort_key f xs)) = sum_list (map g xs)"
  by (induction xs) (simp_all add: sum_list_insort_key)

lemma finalQuery_join:
  "finalQuery db query =
     rev (sort_key (\<lambda>(t, c). cat_name c)
       (innerJoin (filter (conditions query) (transactionsTable db)) (categoriesTable db)
          (\<lambda>t c. tx_category_id t = Some (cat_id c))))"
  by (simp add: finalQuery_def innerJoin_filter)

lemma filter_ordered:
  "filter p (rev (sort_key f xs)) = rev (sort_key f (filter p xs))"
  by (simp add: rev_filter [symmetric] filter_sort)

lemma length_filter_ordered:
  "length (filter p (rev (sort_key f xs))) = length (filter p xs)"
  by (simp add: filter_ordered)

lemma sum_filter_ordered:
  fixes g :: "'a \<Rightarrow> 'b::comm_monoid_add"
  shows "sum_list (map g (filter p (rev (sort_key f xs)))) = sum_list (map g (filter p xs))"
  by (simp add: filter_ordered rev_map [symmetric] sum_list_sort_key)

lemma length_innerJoin_eq:
  assumes "\<And>a. a \<in> set as \<Longrightarrow> length (filter (on a) bs) = 1"
  shows "length (innerJoin as bs on) = length as"
  using assms
proof (induction as)
  case Nil
  show ?case by (simp add: innerJoin_def)
next
  case (Cons a as)
  have "length (innerJoin (a # as) bs on) = length (filter (on a) bs) + length (innerJoin as bs on)"
    by (simp add: innerJoin_def)
  with Cons show ?case by simp
qed

lemma one_match:
  assumes "distinct (map f bs)" and "b \<in> set bs"
  shows "length (filter (\<lambda>b'. Some (f b) = Some (f b')) bs) = 1"
proof -
  have "filter (\<lambda>b'. Some (f b) = Some (f b')) bs = filter (\<lambda>b'. f b' = f b) bs"
    by (intro filter_cong) auto
  with filter_by_key [OF assms] show ?thesis by simp
qed

section \<open>The net amount\<close>

text \<open>
  C1. Every report that \<open>getMonthlyReport\<close> returns has
  \<open>netAmount = totalIncome + totalPayments - totalExpenses - totalCredit\<close>: payments
  count with income, against expenses and credit.
\<close>

theorem netAmount_identity:
  assumes "getMonthlyReport tza db query = Inr r"
  shows "netAmount r = totalIncome r + totalPayments r - totalExpenses r - totalCredit r"
  using assms
  by (auto simp: getMonthlyReport_def monthlyReport_def Let_def split: option.splits)

theorem netAmount_identity_witness:
  "getMonthlyReport 0 ledger january = Inr januaryReport \<and>
   netAmount januaryReport = 34000 \<and>
   totalIncome januaryReport + totalPayments januaryReport
     - totalExpenses januaryReport - totalCredit januaryReport = 34000"
  using netAmount_identity [OF january_report] january_report
  by (simp add: januaryReport_def)

section \<open>The breakdowns count a part of the transactions\<close>

text \<open>
  C7. In every monthly report the transaction counts of the category breakdown add up to
  at most the report's \<open>transactionCount\<close>, and so do those of the pool breakdown. The ids
  of the categories and of the pools are primary keys.
\<close>

theorem breakdown_counts_bounded:
  assumes "distinct (map cat_id (categoriesTable db))"
    and "distinct (map pool_id (poolsTable db))"
    and "getMonthlyReport tza db query = Inr r"
  shows "sum_list (map cb_transactionCount (categoryBreakdown r)) \<le> transactionCount r \<and>
         sum_list (map pb_transactionCount (poolBreakdown r)) \<le> transactionCount r"
proof -
  from assms(3) obtain conds where r: "r = monthlyReport db conds"
    by (auto simp: getMonthlyReport_def split: option.splits)
  have c: "categoryBreakdown r = categoryQuery db conds"
    and p: "poolBreakdown r = poolQuery db conds"
    by (simp_all add: r monthlyReport_def Let_def)
  have "sum_list (map cb_transactionCount (categoryBreakdown r))
          \<le> length (filter conds (transactionsTable db))"
    unfolding c categoryQuery_count
    by (rule length_innerJoin_le) (rule unique_match [OF assms(1)])
  moreover have "sum_list (map pb_transactionCount (poolBreakdown r))
          \<le> length (filter conds (transactionsTable db))"
    unfolding p poolQuery_count
    by (rule length_innerJoin_le) (rule unique_match [OF assms(2)])
  ultimately show ?thesis by (simp add: r monthlyReport_count)
qed

theorem breakdown_counts_bounded_witness:
  "distinct (map cat_id (categoriesTable ledger)) \<and>
   distinct (map pool_id (poolsTable ledger)) \<and>
   getMonthlyReport 0 ledger january = Inr januaryReport \<and>
   sum_list (map cb_transactionCount (categoryBreakdown januaryReport)) = 5 \<and>
   sum_list (map pb_transactionCount (poolBreakdown januaryReport)) = 2 \<and>
   transactionCount januaryReport = 5"
  using breakdown_counts_bounded [OF ledger_keys january_report] ledger_keys january_report
  by (simp add: januaryReport_def)

section \<open>A month without transactions\<close>



section \<open>A payment that carries a category\<close>

text \<open>
  C9. The category breakdown of the monthly report joins on the category id and looks at
  no transaction type: the row of a category counts and sums every transaction in the
  date range that carries the category's id, a payment \<open>t\<close> among them. The category
  report leaves payments out: it is the same with \<open>t\<close> taken from the table.
\<close>

theorem payment_in_category_breakdown:
  assumes "distinct (map cat_id (categoriesTable db))"
    and "monthRange tza (mq_year query) (mq_month query) = Some (startDate, endDate)"
    and "getMonthlyReport tza db query = Inr r"
    and "t \<in> set (transactionsTable db)"
    and "tx_type t = Payment"
    and "baseConditions query startDate endDate t"
    and "c \<in> set (categoriesTable db)"
    and "tx_category_id t = Some (cat_id c)"
  shows "\<lparr>cb_categoryId = cat_id c, cb_categoryName = cat_name c, cb_type = cat_type c,
          cb_totalAmount = sum_list (map tx_amount
            (filter (\<lambda>t'. baseConditions query startDate endDate t' \<and>
                          tx_category_id t' = Some (cat_id c)) (transactionsTable db))),
          cb_transactionCount = length
            (filter (\<lambda>t'. baseConditions query startDate endDate t' \<and>
                          tx_category_id t' = Some (cat_id c)) (transactionsTable db))\<rparr>
           \<in> set (categoryBreakdown r) \<and>
         getCategoryReport tza
           (db\<lparr>transactionsTable := filter (\<lambda>t'. t' \<noteq> t) (transactionsTable db)\<rparr>) cquery =
         getCategoryReport tza db cquery"
proof -
  from assms(2,3) have "categoryBreakdown r = categoryQuery db (baseConditions query startDate endDate)"
    by (auto simp: getMonthlyReport_def monthlyReport_def Let_def)
  moreover have "finalQuery (db\<lparr>transactionsTable := filter (\<lambda>t'. t' \<noteq> t) (transactionsTable db)\<rparr>) cquery =
                 finalQuery db cquery"
    using assms(5) by (intro finalQuery_restrict) (auto dest: conditions_not_payment)
  ultimately show ?thesis
    using categoryQuery_group
            [where conds = "baseConditions query startDate endDate", OF assms(1,7,4,6,8)]
    by (simp add: getCategoryReport_def)
qed

theorem payment_in_category_breakdown_witness:
  "distinct (map cat_id (categoriesTable ledger)) \<and>
   monthRange 0 (mq_year january) (mq_month january) = Some (1704067200000, 1706745599999) \<and>
   getMonthlyReport 0 ledger january = Inr januaryReport \<and>
   utilityBill \<in> set (transactionsTable ledger) \<and>
   tx_type utilityBill = Payment \<and>
   baseConditions january 1704067200000 1706745599999 utilityBill \<and>
   groceries \<in> set (categoriesTable ledger) \<and>
   tx_category_id utilityBill = Some (cat_id groceries) \<and>
   \<lparr>cb_categoryId = 2, cb_categoryName = ''Groceries'', cb_type = CatExpense,
    cb_totalAmount = 9000, cb_transactionCount = 3\<rparr> \<in> set (categoryBreakdown januaryReport) \<and>
   getCategoryReport 0
     (ledger\<lparr>transactionsTable := filter (\<lambda>t'. t' \<noteq> utilityBill) (transactionsTable ledger)\<rparr>)
     allDates = allDatesReport"
  using payment_in_category_breakdown
          [OF ledger_keys(1) january_range january_report utilityBill_facts, of allDates]
        ledger_keys(1) january_range january_report utilityBill_facts all_dates_report
  by (simp add: januaryReport_def)

section \<open>The month of the monthly report\<close>




section \<open>Months outside 1 to 12\<close>




section \<open>The totals by type\<close>

text \<open>
  C5. In every category report, each of the three totals by type is the sum of
  \<open>totalAmount\<close> over the categories of that type, and it is 0 when the report has no
  category of the type.
\<close>

theorem totals_by_type:
  fixes tza db query
  defines "r \<equiv> getCategoryReport tza db query"
  shows "income (totalsByType r) =
           sum_list (map ce_totalAmount (filter (\<lambda>c. ce_type c = CatIncome) (categories r))) \<and>
         expense (totalsByType r) =
           sum_list (map ce_totalAmount (filter (\<lambda>c. ce_type c = CatExpense) (categories r))) \<and>
         credit (totalsByType r) =
           sum_list (map ce_totalAmount (filter (\<lambda>c. ce_type c = CatCredit) (categories r))) \<and>
         ((\<forall>c \<in> set (categories r). ce_type c \<noteq> CatIncome) \<longrightarrow> income (totalsByType r) = 0) \<and>
         ((\<forall>c \<in> set (categories r). ce_type c \<noteq> CatExpense) \<longrightarrow> expense (totalsByType r) = 0) \<and>
         ((\<forall>c \<in> set (categories r). ce_type c \<noteq> CatCredit) \<longrightarrow> credit (totalsByType r) = 0)"
proof -
  have sums:
    "income (totalsByType r) =
       sum_list (map ce_totalAmount (filter (\<lambda>c. ce_type c = CatIncome) (categories r)))"
    "expense (totalsByType r) =
       sum_list (map ce_totalAmount (filter (\<lambda>c. ce_type c = CatExpense) (categories r)))"
    "credit (totalsByType r) =
       sum_list (map ce_totalAmount (filter (\<lambda>c. ce_type c = CatCredit) (categories r)))"
    by (simp_all add: r_def getCategoryReport_def categoryReport_def Let_def addToTotals_fold)
  show ?thesis
    using no_category_of_type [of "categories r"] by (simp add: sums)
qed

theorem totals_by_type_witness:
  "getCategoryReport 0 ledger february = februaryReport \<and>
   getCategoryReport 0 ledger payday = paydayReport \<and>
   map ce_type (categories februaryReport) = [CatExpense] \<and>
   map ce_type (categories paydayReport) = [CatIncome] \<and>
   income (totalsByType februaryReport) = 0 \<and>
   expense (totalsByType februaryReport) = 4000 \<and>
   credit (totalsByType februaryReport) = 0 \<and>
   income (totalsByType paydayReport) = 50000 \<and>
   expense (totalsByType paydayReport) = 0 \<and>
   credit (totalsByType paydayReport) = 0 \<and>
   sum_list (map ce_totalAmount
     (filter (\<lambda>c. ce_type c = CatExpense) (categories februaryReport))) = 4000 \<and>
   sum_list (map ce_totalAmount
     (filter (\<lambda>c. ce_type c = CatIncome) (categories paydayReport))) = 50000"
  using totals_by_type [of 0 ledger february] totals_by_type [of 0 ledger payday]
        february_report payday_report
  by (simp add: februaryReport_def paydayReport_def)

section \<open>The monthly breakdown of a category\<close>



text \<open>
  C6. For every category of every category report, the monthly breakdown is strictly
  ascending by year and then by month, and no two of its entries have the same year and
  month.
\<close>

theorem monthly_breakdown_ordered:
  "\<forall>c \<in> set (categories (getCategoryReport tza db query)).
     sorted_wrt (\<lambda>a b. md_year a < md_year b \<or> (md_year a = md_year b \<and> md_month a < md_month b))
       (ce_monthlyBreakdown c) \<and>
     distinct (map (\<lambda>m. (md_year m, md_month m)) (ce_monthlyBreakdown c))"
  by (auto simp: getCategoryReport_def categoryReport_def Let_def buildCategory_months)

theorem monthly_breakdown_ordered_witness:
  "getCategoryReport 0 ledger allDates = allDatesReport \<and>
   last (categories allDatesReport) \<in> set (categories allDatesReport) \<and>
   map (\<lambda>m. (md_year m, md_month m)) (ce_monthlyBreakdown (last (categories allDatesReport))) =
     [(2023, 12), (2024, 1), (2024, 2)] \<and>
   sorted_wrt (\<lambda>a b. md_year a < md_year b \<or> (md_year a = md_year b \<and> md_month a < md_month b))
     (ce_monthlyBreakdown (last (categories allDatesReport))) \<and>
   distinct (map (\<lambda>m. (md_year m, md_month m))
     (ce_monthlyBreakdown (last (categories allDatesReport))))"
  using monthly_breakdown_ordered [of 0 ledger allDates] all_dates_report
  by (simp add: allDatesReport_def)

section \<open>The transactions of the category report\<close>

text \<open>
  C2. The conditions of the query are the claim's: the user, a type among income, expense
  and credit, a category id, and the two dates where the query gives them, both ends
  included. With \<open>M\<close> the transactions that satisfy them, the category report is the
  report on \<open>M\<close> alone, and the report on the table without its payments; its categories
  have different ids, they count every transaction of \<open>M\<close> once, and each counts and sums
  the transactions of \<open>M\<close> with its id.
\<close>

theorem category_report_transactions:
  assumes keys: "distinct (map cat_id (categoriesTable db))"
    and fk: "foreignKeys db"
  shows "let M = filter (conditions query) (transactionsTable db);
             r = getCategoryReport tza db query
         in (\<forall>t. conditions query t \<longleftrightarrow>
                 tx_user_id t = cq_user_id query \<and>
                 (tx_type t = Income \<or> tx_type t = Expense \<or> tx_type t = Credit) \<and>
                 tx_category_id t \<noteq> None \<and>
                 (\<forall>d. cq_start_date query = Some d \<longrightarrow> d \<le> tx_transaction_date t) \<and>
                 (\<forall>d. cq_end_date query = Some d \<longrightarrow> tx_transaction_date t \<le> d)) \<and>
            getCategoryReport tza (db\<lparr>transactionsTable := M\<rparr>) query = r \<and>
            getCategoryReport tza
              (db\<lparr>transactionsTable := filter (\<lambda>t. tx_type t \<noteq> Payment) (transactionsTable db)\<rparr>)
              query = r \<and>
            distinct (map ce_categoryId (categories r)) \<and>
            sum_list (map ce_transactionCount (categories r)) = length M \<and>
            (\<forall>c \<in> set (categories r).
               ce_transactionCount c =
                 length (filter (\<lambda>t. tx_category_id t = Some (ce_categoryId c)) M) \<and>
               ce_totalAmount c =
                 sum_list (map tx_amount (filter (\<lambda>t. tx_category_id t = Some (ce_categoryId c)) M)))"
proof -
  define M where "M = filter (conditions query) (transactionsTable db)"
  define J where "J = innerJoin M (categoriesTable db) (\<lambda>t c. tx_category_id t = Some (cat_id c))"
  define rows where "rows = finalQuery db query"
  define cm where "cm = foldl addResult [] rows"
  define r where "r = getCategoryReport tza db query"
  have rows: "rows = rev (sort_key (\<lambda>(t, c). cat_name c) J)"
    by (simp add: rows_def J_def M_def finalQuery_join)
  have cats: "categories r = map (buildCategory tza) (map snd cm)"
    by (simp add: r_def getCategoryReport_def categoryReport_def Let_def cm_def rows_def)
  have g: "grouped cm rows"
    unfolding cm_def by (rule grouped_categoryMap)
  have words: "conditions query t \<longleftrightarrow>
                 tx_user_id t = cq_user_id query \<and>
                 (tx_type t = Income \<or> tx_type t = Expense \<or> tx_type t = Credit) \<and>
                 tx_category_id t \<noteq> None \<and>
                 (\<forall>d. cq_start_date query = Some d \<longrightarrow> d \<le> tx_transaction_date t) \<and>
                 (\<forall>d. cq_end_date query = Some d \<longrightarrow> tx_transaction_date t \<le> d)" for t
    by (auto simp: conditions_def split: option.splits)
  have only: "getCategoryReport tza (db\<lparr>transactionsTable := M\<rparr>) query = r"
    unfolding M_def r_def getCategoryReport_def
    by (subst finalQuery_restrict) simp_all
  have payments: "getCategoryReport tza
      (db\<lparr>transactionsTable := filter (\<lambda>t. tx_type t \<noteq> Payment) (transactionsTable db)\<rparr>) query = r"
    unfolding r_def getCategoryReport_def
    by (subst finalQuery_restrict) (auto dest: conditions_not_payment)
  have ids: "map ce_categoryId (categories r) = map fst cm"
    using grouped_keys [OF g] by (simp add: cats buildCategory_def Let_def comp_def)
  have distinct_ids: "distinct (map ce_categoryId (categories r))"
    using g by (simp add: ids grouped_def)
  have group: "filter (\<lambda>(t, c). cat_id c = k) J =
               map (\<lambda>t. (t, c0)) (filter (\<lambda>t. tx_category_id t = Some k) M)"
    if "c0 \<in> set (categoriesTable db)" "cat_id c0 = k" for k c0
    using join_group [OF keys that(1), where g = tx_category_id and as = M] that(2)
    by (simp add: J_def)
  have each: "ce_transactionCount c =
                length (filter (\<lambda>t. tx_category_id t = Some (ce_categoryId c)) M) \<and>
              ce_totalAmount c =
                sum_list (map tx_amount (filter (\<lambda>t. tx_category_id t = Some (ce_categoryId c)) M))"
    if "c \<in> set (categories r)" for c
  proof -
    from that obtain k cd where kcd: "(k, cd) \<in> set cm" and c: "c = buildCategory tza cd"
      by (auto simp: cats)
    from grouped_member [OF g kcd]
    have id: "cd_categoryId cd = k"
      and tx: "cd_transactions cd = map entry (filter (\<lambda>(t, c). cat_id c = k) rows)"
      and ex: "\<exists>t c. (t, c) \<in> set rows \<and> cat_id c = k"
      by simp_all
    from ex obtain t0 c0 where "(t0, c0) \<in> set J" and k: "cat_id c0 = k"
      by (auto simp: rows)
    then have c0: "c0 \<in> set (categoriesTable db)"
      by (simp add: J_def innerJoin_snd_in)
    have "length (cd_transactions cd) = length (filter (\<lambda>(t, c). cat_id c = k) J)"
      by (simp add: tx rows length_filter_ordered)
    also have "\<dots> = length (filter (\<lambda>t. tx_category_id t = Some k) M)"
      by (simp add: group [OF c0 k])
    finally have count: "length (cd_transactions cd) =
                         length (filter (\<lambda>t. tx_category_id t = Some k) M)" .
    have "sum_list (map ct_amount (cd_transactions cd)) =
          sum_list (map (tx_amount \<circ> fst) (filter (\<lambda>(t, c). cat_id c = k) rows))"
      by (simp add: tx comp_def entry_def)
    also have "\<dots> = sum_list (map (tx_amount \<circ> fst) (filter (\<lambda>(t, c). cat_id c = k) J))"
      unfolding rows by (rule sum_filter_ordered)
    also have "\<dots> = sum_list (map tx_amount (filter (\<lambda>t. tx_category_id t = Some k) M))"
      by (simp add: group [OF c0 k] comp_def)
    finally have total: "sum_list (map ct_amount (cd_transactions cd)) =
                         sum_list (map tx_amount (filter (\<lambda>t. tx_category_id t = Some k) M))" .
    from count total show ?thesis
      by (simp add: c buildCategory_def Let_def id foldl_amounts)
  qed
  have "sum_list (map ce_transactionCount (categories r)) =
        sum_list (map (\<lambda>k. length (filter (\<lambda>p. (cat_id \<circ> snd) p = k) rows)) (map fst cm))"
  proof -
    have "map ce_transactionCount (categories r) =
          map (\<lambda>(k, cd). length (filter (\<lambda>(t, c). cat_id c = k) rows)) cm"
      unfolding cats map_map
    proof (rule map_cong [OF refl])
      fix x assume x: "x \<in> set cm"
      obtain k cd where "x = (k, cd)" by (cases x)
      with grouped_member(2) [OF g, of k cd] x
      show "(ce_transactionCount \<circ> (buildCategory tza \<circ> snd)) x =
            (case x of (k, cd) \<Rightarrow> length (filter (\<lambda>(t, c). cat_id c = k) rows))"
        by (simp add: buildCategory_def Let_def)
    qed
    then show ?thesis by (simp add: comp_def case_prod_unfold)
  qed
  also have "\<dots> = length rows"
  proof (rule partition_length)
    show "distinct (map fst cm)" using g by (simp add: grouped_def)
    show "set (map (cat_id \<circ> snd) rows) \<subseteq> set (map fst cm)"
    proof
      fix k assume "k \<in> set (map (cat_id \<circ> snd) rows)"
      then have "filter (\<lambda>(t, c). cat_id c = k) rows \<noteq> []"
        by (auto simp: filter_empty_conv)
      moreover from g have "map_of cm k = None \<Longrightarrow> filter (\<lambda>(t, c). cat_id c = k) rows = []"
        unfolding grouped_def by blast
      ultimately have "map_of cm k \<noteq> None"
        by blast
      then show "k \<in> set (map fst cm)"
        by (simp add: map_of_eq_None_iff)
    qed
  qed
  also have "\<dots> = length J"
    by (simp add: rows)
  also have "\<dots> = length M"
    unfolding J_def
  proof (rule length_innerJoin_eq)
    fix t assume "t \<in> set M"
    then have t: "t \<in> set (transactionsTable db)" and "tx_category_id t \<noteq> None"
      by (simp_all add: M_def conditions_def)
    then obtain cid where cid: "tx_category_id t = Some cid" by auto
    with fk t have "cid \<in> set (map cat_id (categoriesTable db))"
      by (auto simp: foreignKeys_def list_all_iff)
    then obtain c0 where "c0 \<in> set (categoriesTable db)" and "cid = cat_id c0"
      by auto
    with one_match [OF keys this(1)] cid
    show "length (filter (\<lambda>c. tx_category_id t = Some (cat_id c)) (categoriesTable db)) = 1"
      by simp
  qed
  finally have total: "sum_list (map ce_transactionCount (categories r)) = length M" .
  from words only payments distinct_ids total each show ?thesis
    unfolding Let_def M_def [symmetric] r_def [symmetric] by blast
qed

theorem category_report_transactions_witness:
  "distinct (map cat_id (categoriesTable ledger)) \<and>
   foreignKeys ledger \<and>
   map tx_id (filter (conditions allDates) (transactionsTable ledger)) = [1, 2, 3, 5, 6, 7] \<and>
   getCategoryReport 0 ledger allDates = allDatesReport \<and>
   getCategoryReport 0
     (ledger\<lparr>transactionsTable := filter (conditions allDates) (transactionsTable ledger)\<rparr>)
     allDates = allDatesReport \<and>
   getCategoryReport 0
     (ledger\<lparr>transactionsTable := filter (\<lambda>t. tx_type t \<noteq> Payment) (transactionsTable ledger)\<rparr>)
     allDates = allDatesReport \<and>
   map ce_categoryId (categories allDatesReport) = [1, 3, 2] \<and>
   map ce_transactionCount (categories allDatesReport) = [1, 1, 4] \<and>
   length (filter (conditions allDates) (transactionsTable ledger)) = 6"
proof -
  note inst = category_report_transactions [OF ledger_keys(1) ledger_foreignKeys, of allDates 0]
  have "length (map tx_id (filter (conditions allDates) (transactionsTable ledger))) = 6"
    unfolding all_dates_transactions by simp
  then have len: "length (filter (conditions allDates) (transactionsTable ledger)) = 6"
    by simp
  from inst have
    "getCategoryReport 0
       (ledger\<lparr>transactionsTable := filter (conditions allDates) (transactionsTable ledger)\<rparr>)
       allDates = getCategoryReport 0 ledger allDates"
    and "getCategoryReport 0
       (ledger\<lparr>transactionsTable := filter (\<lambda>t. tx_type t \<noteq> Payment) (transactionsTable ledger)\<rparr>)
       allDates = getCategoryReport 0 ledger allDates"
    unfolding Let_def by blast+
  with ledger_keys(1) ledger_foreignKeys all_dates_transactions all_dates_report len
  show ?thesis
    by (simp add: allDatesReport_def)
qed

end
